theory Spec2Isabelle
  imports Main
begin

section \<open>Python values used by the client\<close>

text \<open>
  Python strings are modelled as \<open>string\<close>, with one \<open>char\<close> per code point; the model
  covers the code points below 256. Exceptions are values of \<open>error\<close>; a function that can
  raise returns \<open>error + 'a\<close>, with \<open>Inl\<close> for the exception.
\<close>

datatype error =
    ArgumentTypeError string
  | ValueError
  | SystemExit int
  | AttributeError
  | JSONDecodeError
  | TypeError
  | IndexError

text \<open>\<open>str.upper\<close> on the ASCII letters, which is all that \<open>string.hexdigits\<close> holds.\<close>

definition upper_char :: "char \<Rightarrow> char" where
  "upper_char c =
     (if (97::nat) \<le> of_char c \<and> of_char c \<le> (122::nat)
      then char_of (of_char c - (32::nat)) else c)"

definition upper :: "string \<Rightarrow> string" where
  "upper s = map upper_char s"

text \<open>\<open>string.hexdigits\<close> of the Python standard library.\<close>

definition hexdigits :: string where
  "hexdigits = ''0123456789abcdefABCDEF''"

section \<open>The argument validator \<open>guid\<close> (client.py, lines 19-29)\<close>

text \<open>
  \<open>x in string.hexdigits.upper()\<close> is a substring test with a one-character \<open>x\<close>, that
  is, membership of the character in the string.
\<close>

definition guid :: "string \<Rightarrow> error + string" where
  "guid g =
     (if length g \<noteq> 32 then Inl (ArgumentTypeError ''GUID needs to be 32 characters'')
      else if \<not> list_all (\<lambda>x. x \<in> set (upper hexdigits)) g
        then Inl (ArgumentTypeError ''GUID is not a upper-case hexadecimal number'')
      else Inr g)"

section \<open>JSON values and \<open>json.dumps\<close>\<close>

text \<open>
  The values \<open>json.loads\<close> returns and \<open>json.dumps\<close> accepts. A \<open>dict\<close> keeps its keys in
  insertion order, so an object is an association list. A float is held by the text
  \<open>json.dumps\<close> writes for it (\<open>float.__repr__\<close> for a finite float, and \<open>NaN\<close>,
  \<open>Infinity\<close>, \<open>-Infinity\<close> otherwise); the float arithmetic behind that text is not
  modelled.
\<close>

datatype json =
    JNull
  | JBool bool
  | JInt int
  | JFloat string
  | JString string
  | JArray "json list"
  | JObject "(string \<times> json) list"

type_synonym dict = "(string \<times> json) list"

text \<open>\<open>key in d\<close> and \<open>d[key] = value\<close> on a \<open>dict\<close>: an existing key keeps its place.\<close>

definition dict_contains :: "string \<Rightarrow> dict \<Rightarrow> bool" where
  "dict_contains k d = (k \<in> set (map fst d))"

fun dict_setitem :: "string \<Rightarrow> json \<Rightarrow> dict \<Rightarrow> dict" where
  "dict_setitem k v [] = [(k, v)]"
| "dict_setitem k v (p # ps) = (if fst p = k then (k, v) # ps else p # dict_setitem k v ps)"

fun dict_get :: "dict \<Rightarrow> string \<Rightarrow> json option" where
  "dict_get [] k = None"
| "dict_get (p # ps) k = (if fst p = k then Some (snd p) else dict_get ps k)"

text \<open>\<open>str(n)\<close> for an integer: decimal digits, a minus sign for a negative number.\<close>

definition digit_char :: "nat \<Rightarrow> char" where
  "digit_char n = ''0123456789'' ! n"

fun str_nat :: "nat \<Rightarrow> string" where
  "str_nat n = (if n < 10 then [digit_char n] else str_nat (n div 10) @ [digit_char (n mod 10)])"

declare str_nat.simps [simp del]

definition str_int :: "int \<Rightarrow> string" where
  "str_int i = (if i < 0 then CHR ''-'' # str_nat (nat (- i)) else str_nat (nat i))"

text \<open>
  String encoding of \<open>json.dumps\<close> with its default \<open>ensure_ascii=True\<close>: the quote and the
  backslash are escaped, the five control characters with a short form use it, and every
  other character outside the printable ASCII range becomes \<open>\u00xx\<close> with lower-case
  hexadecimal digits.
\<close>

definition quote :: char where
  "quote = CHR 0x22"

definition backslash :: char where
  "backslash = CHR 0x5C"

definition hex_digit :: "nat \<Rightarrow> char" where
  "hex_digit n = ''0123456789abcdef'' ! n"

definition escape_char :: "char \<Rightarrow> string" where
  "escape_char c =
     (if c = backslash then [backslash, backslash]
      else if c = quote then [backslash, quote]
      else if c = CHR 0x08 then [backslash, CHR ''b'']
      else if c = CHR 0x0C then [backslash, CHR ''f'']
      else if c = CHR 0x0A then [backslash, CHR ''n'']
      else if c = CHR 0x0D then [backslash, CHR ''r'']
      else if c = CHR 0x09 then [backslash, CHR ''t'']
      else if (32::nat) \<le> of_char c \<and> of_char c \<le> (126::nat) then [c]
      else [backslash, CHR ''u'', CHR ''0'', CHR ''0'',
            hex_digit (of_char c div 16), hex_digit (of_char c mod 16)])"

definition encode_string :: "string \<Rightarrow> string" where
  "encode_string s = quote # concat (map escape_char s) @ [quote]"

fun join :: "string \<Rightarrow> string list \<Rightarrow> string" where
  "join sep [] = []"
| "join sep [x] = x"
| "join sep (x # y # ys) = x @ sep @ join sep (y # ys)"

text \<open>\<open>json.dumps\<close> with its default separators \<open>', '\<close> and \<open>': '\<close>.\<close>

fun dumps :: "json \<Rightarrow> string" where
  "dumps JNull = ''null''"
| "dumps (JBool b) = (if b then ''true'' else ''false'')"
| "dumps (JInt i) = str_int i"
| "dumps (JFloat r) = r"
| "dumps (JString s) = encode_string s"
| "dumps (JArray xs) = ''['' @ join '', '' (map dumps xs) @ '']''"
| "dumps (JObject kvs) =
     ''{'' @ join '', '' (map (\<lambda>(k, v). encode_string k @ '': '' @ dumps v) kvs) @ ''}''"

section \<open>JSON texts (RFC 8259)\<close>

text \<open>
  The grammar of a JSON text, against which the synthesized bodies are judged: optional
  whitespace around a value; a value is a literal name, a number, a string, an array or
  an object.
\<close>

definition ws_char :: "char \<Rightarrow> bool" where
  "ws_char c = (c = CHR 0x20 \<or> c = CHR 0x09 \<or> c = CHR 0x0A \<or> c = CHR 0x0D)"

definition json_ws :: "string \<Rightarrow> bool" where
  "json_ws w = list_all ws_char w"

definition is_digit :: "char \<Rightarrow> bool" where
  "is_digit c = (c \<in> set ''0123456789'')"

definition is_hex :: "char \<Rightarrow> bool" where
  "is_hex c = (c \<in> set ''0123456789abcdefABCDEF'')"

definition json_digits :: "string \<Rightarrow> bool" where
  "json_digits ds = (ds \<noteq> [] \<and> list_all is_digit ds)"

definition json_int_part :: "string \<Rightarrow> bool" where
  "json_int_part ds = (ds = ''0'' \<or> (json_digits ds \<and> hd ds \<noteq> CHR ''0''))"

definition json_frac :: "string \<Rightarrow> bool" where
  "json_frac f = (case f of [] \<Rightarrow> True | c # ds \<Rightarrow> c = CHR ''.'' \<and> json_digits ds)"

definition json_exp :: "string \<Rightarrow> bool" where
  "json_exp e =
     (case e of [] \<Rightarrow> True
      | c # r \<Rightarrow> (c = CHR ''e'' \<or> c = CHR ''E'') \<and>
          (case r of [] \<Rightarrow> False
           | s # ds \<Rightarrow> if s = CHR ''+'' \<or> s = CHR ''-'' then json_digits ds else json_digits r))"

inductive json_number :: "string \<Rightarrow> bool" where
  positive: "json_int_part ds \<Longrightarrow> json_frac f \<Longrightarrow> json_exp e \<Longrightarrow> json_number (ds @ f @ e)"
| negative: "json_int_part ds \<Longrightarrow> json_frac f \<Longrightarrow> json_exp e \<Longrightarrow>
     json_number (CHR ''-'' # ds @ f @ e)"

inductive json_chars :: "string \<Rightarrow> bool" where
  no_chars: "json_chars []"
| unescaped: "(32::nat) \<le> of_char c \<Longrightarrow> c \<noteq> quote \<Longrightarrow> c \<noteq> backslash \<Longrightarrow> json_chars s \<Longrightarrow>
     json_chars (c # s)"
| escaped: "c \<in> set [quote, backslash, CHR ''/'', CHR ''b'', CHR ''f'', CHR ''n'', CHR ''r'',
       CHR ''t''] \<Longrightarrow> json_chars s \<Longrightarrow> json_chars (backslash # c # s)"
| unicode: "is_hex a \<Longrightarrow> is_hex b \<Longrightarrow> is_hex c \<Longrightarrow> is_hex d \<Longrightarrow> json_chars s \<Longrightarrow>
     json_chars (backslash # CHR ''u'' # a # b # c # d # s)"

inductive json_value :: "string \<Rightarrow> bool"
  and json_element :: "string \<Rightarrow> bool"
  and json_elements :: "string \<Rightarrow> bool"
  and json_member :: "string \<Rightarrow> bool"
  and json_members :: "string \<Rightarrow> bool"
where
  null: "json_value ''null''"
| true: "json_value ''true''"
| false: "json_value ''false''"
| number: "json_number n \<Longrightarrow> json_value n"
| chars: "json_chars s \<Longrightarrow> json_value (quote # s @ [quote])"
| empty_array: "json_ws w \<Longrightarrow> json_value (CHR ''['' # w @ '']'')"
| array: "json_elements es \<Longrightarrow> json_value (CHR ''['' # es @ '']'')"
| empty_object: "json_ws w \<Longrightarrow> json_value (CHR ''{'' # w @ ''}'')"
| object: "json_members ms \<Longrightarrow> json_value (CHR ''{'' # ms @ ''}'')"
| element: "json_ws a \<Longrightarrow> json_value v \<Longrightarrow> json_ws b \<Longrightarrow> json_element (a @ v @ b)"
| one_element: "json_element e \<Longrightarrow> json_elements e"
| more_elements: "json_element e \<Longrightarrow> json_elements es \<Longrightarrow> json_elements (e @ CHR '','' # es)"
| member: "json_ws a \<Longrightarrow> json_chars k \<Longrightarrow> json_ws b \<Longrightarrow> json_element e \<Longrightarrow>
     json_member (a @ quote # k @ quote # b @ CHR '':'' # e)"
| one_member: "json_member m \<Longrightarrow> json_members m"
| more_members: "json_member m \<Longrightarrow> json_members ms \<Longrightarrow> json_members (m @ CHR '','' # ms)"

definition valid_json :: "string \<Rightarrow> bool" where
  "valid_json s = json_element s"

text \<open>The floats of a value all print as JSON numbers, which the finite ones do.\<close>

fun finite_floats :: "json \<Rightarrow> bool" where
  "finite_floats (JFloat r) = json_number r"
| "finite_floats (JArray xs) = list_all finite_floats xs"
| "finite_floats (JObject kvs) = list_all (\<lambda>(k, v). finite_floats v) kvs"
| "finite_floats _ = True"

section \<open>The mock server (client.py, lines 195-260)\<close>

text \<open>
  What a callback reads of the intercepted request, and the context it may write: the
  mock library hands each callback a request object and a fresh context that starts with
  status 200 and no reason, and builds the response from the context and the returned
  text. The request object is the library's; \<open>request_proxy\<close> below says how its path
  comes from the URL.
\<close>

datatype http_method = GET | POST | DELETE

record request =
  req_method :: http_method
  req_url :: string
  req_headers :: "(string \<times> string) list"
  req_path :: string
  req_text :: "string option"

record mock_context =
  status_code :: int
  reason :: "string option"

record response =
  resp_status_code :: int
  resp_reason :: "string option"
  resp_text :: string

type_synonym callback = "request \<Rightarrow> mock_context \<Rightarrow> error + (mock_context \<times> string)"

text \<open>
  \<open>json.loads\<close> is a parameter of the model: \<open>loads\<close> maps a text to the value it
  denotes, or to the exception raised. A request without a body has the text \<open>None\<close>,
  which \<open>json.loads\<close> rejects with a \<open>TypeError\<close>.
\<close>

definition json_loads :: "(string \<Rightarrow> error + json) \<Rightarrow> string option \<Rightarrow> error + json" where
  "json_loads loads t = (case t of None \<Rightarrow> Inl TypeError | Some s \<Rightarrow> loads s)"

text \<open>
  \<open>read_callback\<close> (lines 202-215). \<open>req.path[6:]\<close> is \<open>drop 6\<close>; \<open>guid[0]\<close> raises
  \<open>IndexError\<close> on the empty string.
\<close>

definition read_callback :: callback where
  "read_callback req context =
     (let guid = drop 6 (req_path req) in
      case guid of
        [] \<Rightarrow> Inl IndexError
      | c # _ \<Rightarrow>
          let context = (if c = CHR ''9''
                then context\<lparr>status_code := 503, reason := Some ''mock server error test''\<rparr>
                else context);
              context = (if c = CHR ''8''
                then context\<lparr>status_code := 404, reason := Some ''mock client error test''\<rparr>
                else context)
          in Inr (context,
                dumps (JObject [(''guid'', JString guid), (''expire'', JString ''1234123123123''),
                  (''user'', JString ''foo'')])))"

text \<open>
  \<open>create_update_callback\<close> (lines 217-242). \<open>response\<close> and \<open>body\<close> are one \<open>dict\<close>, so
  the test for \<open>user\<close> sees the \<open>expire\<close> entry just stored. A body that is not a \<open>dict\<close>
  ends in a \<open>TypeError\<close>: a value without \<open>in\<close> raises at the first test, and a string
  or a list raises at the latest at the item assignment of \<open>guid\<close>.
\<close>

definition create_update_callback :: "(string \<Rightarrow> error + json) \<Rightarrow> callback" where
  "create_update_callback loads req context =
     (let guid = ''77777777777777'';
          guid = (if length (req_path req) > 5 then drop 6 (req_path req) else guid)
      in case json_loads loads (req_text req) of
        Inl e \<Rightarrow> Inl e
      | Inr body \<Rightarrow>
          (case body of
            JObject response \<Rightarrow>
              let response = (if \<not> dict_contains ''expire'' response
                    then dict_setitem ''expire'' (JString ''999999999999'') response
                    else response);
                  response = (if \<not> dict_contains ''user'' response
                    then dict_setitem ''user'' (JString ''mock generated'') response
                    else response);
                  response = dict_setitem ''guid'' (JString guid) response
              in (case guid of
                    [] \<Rightarrow> Inl IndexError
                  | c # _ \<Rightarrow>
                      let context = (if c = CHR ''9''
                            then context\<lparr>status_code := 503,
                              reason := Some ''mock server error test''\<rparr>
                            else context);
                          context = (if c = CHR ''8''
                            then context\<lparr>status_code := 404,
                              reason := Some ''mock client error test''\<rparr>
                            else context)
                      in Inr (context, dumps (JObject response)))
          | _ \<Rightarrow> Inl TypeError))"

text \<open>\<open>delete_callback\<close> (lines 244-255).\<close>

definition delete_callback :: callback where
  "delete_callback req context =
     (let guid = drop 6 (req_path req) in
      case guid of
        [] \<Rightarrow> Inl IndexError
      | c # _ \<Rightarrow>
          let context = (if c = CHR ''9''
                then context\<lparr>status_code := 503, reason := Some ''mock server error test''\<rparr>
                else context);
              context = (if c = CHR ''8''
                then context\<lparr>status_code := 404, reason := Some ''mock client error test''\<rparr>
                else context)
          in Inr (context, ''''))"

text \<open>
  The response the mock library builds around a callback: a fresh context, the callback,
  then status, reason and text.
\<close>

definition fresh_context :: mock_context where
  "fresh_context = \<lparr>status_code = 200, reason = None\<rparr>"

definition respond :: "callback \<Rightarrow> request \<Rightarrow> error + response" where
  "respond cb req =
     (case cb req fresh_context of
        Inl e \<Rightarrow> Inl e
      | Inr (context, t) \<Rightarrow>
          Inr \<lparr>resp_status_code = status_code context, resp_reason = reason context,
               resp_text = t\<rparr>)"

text \<open>
  The three routes (lines 257-260). \<open>mock_re\<close> is searched in the URL; the model of
  \<open>re.search\<close> covers the patterns whose only metacharacter is the dot, which matches any
  character but the newline.
\<close>

fun re_match :: "string \<Rightarrow> string \<Rightarrow> bool" where
  "re_match [] s = True"
| "re_match (p # ps) [] = False"
| "re_match (p # ps) (c # cs) =
     ((if p = CHR ''.'' then c \<noteq> CHR 0x0A else c = p) \<and> re_match ps cs)"

fun re_search :: "string \<Rightarrow> string \<Rightarrow> bool" where
  "re_search pat [] = re_match pat []"
| "re_search pat (c # cs) = (re_match pat (c # cs) \<or> re_search pat cs)"

definition mock_re :: string where
  "mock_re = ''mock://test.net/guid''"

type_synonym adapter = "(http_method \<times> string \<times> callback) list"

definition register_uri :: "http_method \<Rightarrow> string \<Rightarrow> callback \<Rightarrow> adapter \<Rightarrow> adapter" where
  "register_uri m pat cb adapter = adapter @ [(m, pat, cb)]"

definition mock_server :: "(string \<Rightarrow> error + json) \<Rightarrow> adapter" where
  "mock_server loads =
     (let adapter = [];
          adapter = register_uri GET mock_re read_callback adapter;
          adapter = register_uri POST mock_re (create_update_callback loads) adapter;
          adapter = register_uri DELETE mock_re delete_callback adapter
      in adapter)"

text \<open>
  The adapter on a request object: the route registered last is tried first; a request
  that no route matches is not intercepted, and the library raises.
\<close>

datatype sent = NoMockAddress | Raised error | Response response

definition adapter_send :: "adapter \<Rightarrow> request \<Rightarrow> sent" where
  "adapter_send adapter req =
     (case find (\<lambda>(m, pat, cb). m = req_method req \<and> re_search pat (req_url req)) (rev adapter) of
        None \<Rightarrow> NoMockAddress
      | Some (m, pat, cb) \<Rightarrow>
          (case respond cb req of Inl e \<Rightarrow> Raised e | Inr r \<Rightarrow> Response r))"

section \<open>The client (client.py, lines 32-192)\<close>

text \<open>
  The two other validators read the clock and call the library; what they call is a
  parameter of the model: the scheme \<open>urlparse\<close> finds in a URL, the integer \<open>int\<close> reads
  from a string (\<open>None\<close> when it raises \<open>ValueError\<close>), and whether \<open>time.time()\<close> is
  greater than a given integer.
\<close>

record env =
  urlparse_scheme :: "string \<Rightarrow> string"
  int_of :: "string \<Rightarrow> int option"
  time_after :: "int \<Rightarrow> bool"

definition future_time :: "env \<Rightarrow> string \<Rightarrow> error + string" where
  "future_time env epoch_time =
     (case int_of env epoch_time of
        None \<Rightarrow> Inl ValueError
      | Some n \<Rightarrow>
          if time_after env n then Inl (ArgumentTypeError ''Specified time is not in the future'')
          else Inr epoch_time)"

definition url :: "env \<Rightarrow> string \<Rightarrow> error + string" where
  "url env endpoint =
     (if urlparse_scheme env endpoint = ''''
      then Inl (ArgumentTypeError
        ''HTTP scheme needs to be provided, e.g. https://<host> or http://<host>'')
      else Inr endpoint)"

text \<open>
  The command line as \<open>argparse\<close> sees it: the sub-command and the value given to each
  option, if any. Each sub-parser declares its options (lines 163-185); \<open>parse_args\<close>
  converts a given value with the option's \<open>type\<close> function and ends the process with
  status 2 when the conversion raises, when a required option is missing, or when an
  option is given that the sub-parser does not declare. Without a sub-command the
  namespace has no attributes.
\<close>

datatype command = Create | Read | Update | Delete

record argv =
  argv_command :: "command option"
  argv_expire :: "string option"
  argv_user :: "string option"
  argv_guid :: "string option"
  argv_url :: "string option"

datatype declared = Undeclared | Optional | Required

definition expire_option :: "command \<Rightarrow> declared" where
  "expire_option cmd = (case cmd of Create \<Rightarrow> Optional | Update \<Rightarrow> Required | _ \<Rightarrow> Undeclared)"

definition user_option :: "command \<Rightarrow> declared" where
  "user_option cmd = (case cmd of Create \<Rightarrow> Required | _ \<Rightarrow> Undeclared)"

definition guid_option :: "command \<Rightarrow> declared" where
  "guid_option cmd = (case cmd of Create \<Rightarrow> Optional | _ \<Rightarrow> Required)"

definition url_option :: "command \<Rightarrow> declared" where
  "url_option cmd = Required"

definition convert :: "declared \<Rightarrow> (string \<Rightarrow> error + string) \<Rightarrow> string option \<Rightarrow>
    error + string option" where
  "convert d type_func given =
     (case given of
        None \<Rightarrow> if d = Required then Inl (SystemExit 2) else Inr None
      | Some s \<Rightarrow>
          if d = Undeclared then Inl (SystemExit 2)
          else (case type_func s of Inl e \<Rightarrow> Inl (SystemExit 2) | Inr v \<Rightarrow> Inr (Some v)))"

datatype func = create_request_func | read_request_func | update_request_func
  | delete_request_func

definition set_defaults :: "command \<Rightarrow> func" where
  "set_defaults cmd =
     (case cmd of Create \<Rightarrow> create_request_func | Read \<Rightarrow> read_request_func
      | Update \<Rightarrow> update_request_func | Delete \<Rightarrow> delete_request_func)"

record args =
  args_url :: string
  args_guid :: "string option"
  args_user :: "string option"
  args_expire :: "string option"
  args_func :: func

definition parse_args :: "env \<Rightarrow> argv \<Rightarrow> error + args option" where
  "parse_args env av =
     (case argv_command av of
        None \<Rightarrow>
          if argv_expire av = None \<and> argv_user av = None \<and> argv_guid av = None \<and>
             argv_url av = None
          then Inr None else Inl (SystemExit 2)
      | Some cmd \<Rightarrow>
          (case convert (expire_option cmd) (future_time env) (argv_expire av) of
             Inl e \<Rightarrow> Inl e
           | Inr e \<Rightarrow>
          (case convert (user_option cmd) Inr (argv_user av) of
             Inl e \<Rightarrow> Inl e
           | Inr u \<Rightarrow>
          (case convert (guid_option cmd) guid (argv_guid av) of
             Inl e \<Rightarrow> Inl e
           | Inr g \<Rightarrow>
          (case convert (url_option cmd) (url env) (argv_url av) of
             Inl e \<Rightarrow> Inl e
           | Inr None \<Rightarrow> Inl (SystemExit 2)
           | Inr (Some l) \<Rightarrow>
               Inr (Some \<lparr>args_url = l, args_guid = g, args_user = u, args_expire = e,
                 args_func = set_defaults cmd\<rparr>))))))"

text \<open>
  The request functions (lines 114-151) build one outbound request each. A missing
  value is \<open>None\<close>: \<open>json.dumps\<close> writes it as \<open>null\<close> and \<open>%s\<close> formats it as
  \<open>None\<close>.
\<close>

record outbound =
  out_method :: http_method
  out_url :: string
  out_data :: "string option"

definition json_of :: "string option \<Rightarrow> json" where
  "json_of v = (case v of None \<Rightarrow> JNull | Some s \<Rightarrow> JString s)"

definition format_s :: "string option \<Rightarrow> string" where
  "format_s v = (case v of None \<Rightarrow> ''None'' | Some s \<Rightarrow> s)"

definition create_request :: "args \<Rightarrow> outbound" where
  "create_request args =
     (if args_guid args = None
      then let body = dumps (JObject [(''user'', json_of (args_user args))])
        in \<lparr>out_method = POST, out_url = args_url args @ ''/guid'', out_data = Some body\<rparr>
      else let body = dumps (JObject [(''user'', json_of (args_user args)),
            (''expire'', json_of (args_expire args))])
        in \<lparr>out_method = POST, out_url = args_url args @ ''/guid/'' @ format_s (args_guid args),
             out_data = Some body\<rparr>)"

definition read_request :: "args \<Rightarrow> outbound" where
  "read_request args =
     \<lparr>out_method = GET, out_url = args_url args @ ''/guid/'' @ format_s (args_guid args),
      out_data = None\<rparr>"

definition update_request :: "args \<Rightarrow> outbound" where
  "update_request args =
     \<lparr>out_method = POST, out_url = args_url args @ ''/guid/'' @ format_s (args_guid args),
      out_data = Some (dumps (JObject [(''expire'', json_of (args_expire args))]))\<rparr>"

definition delete_request :: "args \<Rightarrow> outbound" where
  "delete_request args =
     \<lparr>out_method = DELETE, out_url = args_url args @ ''/guid/'' @ format_s (args_guid args),
      out_data = None\<rparr>"

definition call_func :: "func \<Rightarrow> args \<Rightarrow> outbound" where
  "call_func f args =
     (case f of create_request_func \<Rightarrow> create_request args
      | read_request_func \<Rightarrow> read_request args
      | update_request_func \<Rightarrow> update_request args
      | delete_request_func \<Rightarrow> delete_request args)"

text \<open>
  \<open>main\<close> (lines 187-192), followed up to the dispatch of the request: the session holds
  the mounted mock adapter, if any, and the log lists in order what the run did to it.
  The response and its printing are outside the model.
\<close>

datatype event = MockInstalled | Dispatched outbound

record session =
  session_mock :: "adapter option"
  session_log :: "event list"

definition new_session :: session where
  "new_session = \<lparr>session_mock = None, session_log = []\<rparr>"

definition mount :: "adapter \<Rightarrow> session \<Rightarrow> session" where
  "mount adapter s = s\<lparr>session_mock := Some adapter, session_log := session_log s @ [MockInstalled]\<rparr>"

definition dispatch :: "outbound \<Rightarrow> session \<Rightarrow> session" where
  "dispatch out s = s\<lparr>session_log := session_log s @ [Dispatched out]\<rparr>"

definition startswith :: "string \<Rightarrow> string \<Rightarrow> bool" where
  "startswith s p = (take (length p) s = p)"

definition main :: "env \<Rightarrow> (string \<Rightarrow> error + json) \<Rightarrow> argv \<Rightarrow> session \<times> error option" where
  "main env loads av =
     (case parse_args env av of
        Inl e \<Rightarrow> (new_session, Some e)
      | Inr None \<Rightarrow> (new_session, Some AttributeError)
      | Inr (Some parsed) \<Rightarrow>
          let session = (if startswith (args_url parsed) ''mock://''
                then mount (mock_server loads) new_session else new_session);
              session = dispatch (call_func (args_func parsed) parsed) session
          in (session, None))"

text \<open>
  The \<open>dict\<close> that lines 227-231 of \<open>create_update_callback\<close> build from the request's
  \<open>dict\<close> and the resolved GUID, named so that properties can speak of it.
\<close>

definition filled :: "string \<Rightarrow> dict \<Rightarrow> dict" where
  "filled g d =
     (let response = (if \<not> dict_contains ''expire'' d
            then dict_setitem ''expire'' (JString ''999999999999'') d else d);
          response = (if \<not> dict_contains ''user'' response
            then dict_setitem ''user'' (JString ''mock generated'') response else response)
      in dict_setitem ''guid'' (JString g) response)"

text \<open>
  A \<open>loads\<close> given by a table, for the examples: the listed texts denote the listed
  values, and every other text is rejected.
\<close>

definition loads_table :: "(string \<times> json) list \<Rightarrow> string \<Rightarrow> error + json" where
  "loads_table table t =
     (case map_of table t of None \<Rightarrow> Inl JSONDecodeError | Some v \<Rightarrow> Inr v)"

section \<open>The request object of a callback\<close>

text \<open>
  The mock adapter is created with its defaults (line 198), and by default it is not case
  sensitive: the request object it hands to a callback takes its path from the
  lower-cased URL, while the registered pattern is searched in the URL as sent. So
  \<open>req.path\<close> is the path \<open>urlparse\<close> finds in \<open>url.lower()\<close>.

  \<open>str.lower\<close> on the code points below 256: the ASCII capitals and the capitals of
  Latin-1 move up by 32.
\<close>

definition lower_char :: "char \<Rightarrow> char" where
  "lower_char c =
     (if ((65::nat) \<le> of_char c \<and> of_char c \<le> (90::nat)) \<or>
         ((192::nat) \<le> of_char c \<and> of_char c \<le> (222::nat) \<and> of_char c \<noteq> (215::nat))
      then char_of (of_char c + (32::nat)) else c)"

definition lower :: "string \<Rightarrow> string" where
  "lower s = map lower_char s"

text \<open>
  The path of \<open>urlparse\<close>: a leading scheme (a letter, then letters, digits, \<open>+\<close>, \<open>-\<close>
  and \<open>.\<close>, up to the first colon) is split off; after \<open>//\<close> the network location runs
  to the first \<open>/\<close>, \<open>?\<close> or \<open>#\<close>; the path is what follows, up to the first \<open>#\<close> and,
  before it, the first \<open>?\<close>. The model covers the URLs \<open>urlparse\<close> takes as they are:
  no tab, carriage return or newline, no leading space or control character, no bracket
  in the network location.
\<close>

definition is_ascii_alpha :: "char \<Rightarrow> bool" where
  "is_ascii_alpha c =
     (((65::nat) \<le> of_char c \<and> of_char c \<le> (90::nat)) \<or>
      ((97::nat) \<le> of_char c \<and> of_char c \<le> (122::nat)))"

definition scheme_chars :: string where
  "scheme_chars =
     ''abcdefghijklmnopqrstuvwxyzABCDEFGHIJKLMNOPQRSTUVWXYZ0123456789+-.''"

definition after_scheme :: "string \<Rightarrow> string" where
  "after_scheme u =
     (let s = takeWhile (\<lambda>c. c \<noteq> CHR '':'') u
      in if length s < length u \<and> s \<noteq> '''' \<and> is_ascii_alpha (hd u) \<and>
            list_all (\<lambda>c. c \<in> set scheme_chars) s
         then drop (length s + 1) u else u)"

definition after_netloc :: "string \<Rightarrow> string" where
  "after_netloc u =
     (if take 2 u = ''//'' then dropWhile (\<lambda>c. c \<notin> set ''/?#'') (drop 2 u) else u)"

definition urlparse_path :: "string \<Rightarrow> string" where
  "urlparse_path u =
     takeWhile (\<lambda>c. c \<noteq> CHR ''?'')
       (takeWhile (\<lambda>c. c \<noteq> CHR ''#'') (after_netloc (after_scheme u)))"

text \<open>
  What the adapter does with a request of the session: it builds the request object,
  with the headers the session has added, and answers as \<open>adapter_send\<close> does on that
  object.
\<close>

definition request_proxy :: "(string \<times> string) list \<Rightarrow> outbound \<Rightarrow> request" where
  "request_proxy headers out =
     \<lparr>req_method = out_method out, req_url = out_url out, req_headers = headers,
      req_path = urlparse_path (lower (out_url out)), req_text = out_data out\<rparr>"

definition mock_send :: "adapter \<Rightarrow> (string \<times> string) list \<Rightarrow> outbound \<Rightarrow> sent" where
  "mock_send adapter headers out = adapter_send adapter (request_proxy headers out)"

section \<open>The GUID validator\<close>

lemma upper_hexdigits: "upper hexdigits = ''0123456789ABCDEFABCDEF''"
  by code_simp

lemma set_upper_hexdigits: "set (upper hexdigits) = set ''0123456789ABCDEF''"
  unfolding upper_hexdigits by auto

lemma guid_accepts:
  "length g = 32 \<and> set g \<subseteq> set ''0123456789ABCDEF'' \<Longrightarrow> guid g = Inr g"
  unfolding guid_def set_upper_hexdigits list_all_iff subset_iff
  by (auto simp del: list.set)

lemma guid_rejects:
  "\<not> (length g = 32 \<and> set g \<subseteq> set ''0123456789ABCDEF'') \<Longrightarrow>
   \<exists>msg. guid g = Inl (ArgumentTypeError msg)"
  unfolding guid_def set_upper_hexdigits list_all_iff subset_iff
  by (auto simp del: list.set)

lemma parse_args_guid_rejected:
  assumes "guid g = Inl e" and "argv_guid (av::argv) = Some g"
  shows "parse_args env av = Inl (SystemExit 2)"
  using assms
  by (auto simp: parse_args_def convert_def split: option.splits sum.splits)

text \<open>
  C8. \<open>guid\<close> returns its argument unchanged when it has exactly 32 characters, each of
  them one of \<open>0-9A-F\<close>; on every other string it raises \<open>ArgumentTypeError\<close>, and a run
  of \<open>main\<close> given such a string as \<open>--guid\<close> ends in \<open>parse_args\<close> with exit status 2,
  before the mock is installed and before any request is dispatched (the session is
  still the new one, with an empty log).
\<close>

theorem guid_validator:
  "(length g = 32 \<and> set g \<subseteq> set ''0123456789ABCDEF'' \<longrightarrow> guid g = Inr g) \<and>
   (\<not> (length g = 32 \<and> set g \<subseteq> set ''0123456789ABCDEF'') \<longrightarrow>
      (\<exists>msg. guid g = Inl (ArgumentTypeError msg)) \<and>
      (\<forall>env loads. \<forall>av::argv. argv_guid av = Some g \<longrightarrow>
         main env loads av = (new_session, Some (SystemExit 2))))"
proof (intro conjI impI allI)
  assume "length g = 32 \<and> set g \<subseteq> set ''0123456789ABCDEF''"
  then show "guid g = Inr g" by (rule guid_accepts)
next
  assume bad: "\<not> (length g = 32 \<and> set g \<subseteq> set ''0123456789ABCDEF'')"
  then show rejected: "\<exists>msg. guid g = Inl (ArgumentTypeError msg)"
    by (rule guid_rejects)
  fix env :: env and loads :: "string \<Rightarrow> error + json" and av :: argv
  assume "argv_guid av = Some g"
  with rejected have "parse_args env av = Inl (SystemExit 2)"
    using parse_args_guid_rejected by blast
  then show "main env loads av = (new_session, Some (SystemExit 2))"
    by (simp add: main_def)
qed

theorem guid_validator_witness:
  "guid ''0123456789ABCDEF0123456789ABCDEF'' = Inr ''0123456789ABCDEF0123456789ABCDEF'' \<and>
   (\<exists>msg. guid ''0123456789abcdef0123456789abcdef'' = Inl (ArgumentTypeError msg)) \<and>
   main \<lparr>urlparse_scheme = (\<lambda>u. ''mock''), int_of = (\<lambda>s. Some 0), time_after = (\<lambda>n. False)\<rparr>
     (\<lambda>t. Inl JSONDecodeError)
     \<lparr>argv_command = Some Read, argv_expire = None, argv_user = None,
      argv_guid = Some ''0123456789abcdef0123456789abcdef'',
      argv_url = Some ''mock://test.net''\<rparr> = (new_session, Some (SystemExit 2))"
  using guid_validator [of "''0123456789ABCDEF0123456789ABCDEF''"]
    guid_validator [of "''0123456789abcdef0123456789abcdef''"]
  by simp

section \<open>Responses of the mock server\<close>

lemma find_routes:
  assumes "re_search mock_re (req_url req)"
  shows "find (\<lambda>(m, pat, cb). m = req_method req \<and> re_search pat (req_url req))
           (rev (mock_server loads)) =
         Some (req_method req, mock_re,
           (case req_method req of GET \<Rightarrow> read_callback
            | POST \<Rightarrow> create_update_callback loads | DELETE \<Rightarrow> delete_callback))"
  using assms by (cases "req_method req") (simp_all add: mock_server_def register_uri_def)

lemma adapter_send_mock_server:
  assumes "re_search mock_re (req_url req)"
  shows "adapter_send (mock_server loads) req =
    (case respond (case req_method req of GET \<Rightarrow> read_callback
            | POST \<Rightarrow> create_update_callback loads | DELETE \<Rightarrow> delete_callback) req of
       Inl e \<Rightarrow> Raised e | Inr r \<Rightarrow> Response r)"
  unfolding adapter_send_def find_routes [OF assms] by simp

lemma respond_read:
  "drop 6 (req_path req) = c # cs \<Longrightarrow>
   respond read_callback req =
     Inr \<lparr>resp_status_code = (if c = CHR ''9'' then 503 else if c = CHR ''8'' then 404 else 200),
          resp_reason = (if c = CHR ''9'' then Some ''mock server error test''
            else if c = CHR ''8'' then Some ''mock client error test'' else None),
          resp_text = dumps (JObject [(''guid'', JString (c # cs)),
            (''expire'', JString ''1234123123123''), (''user'', JString ''foo'')])\<rparr>"
  by (simp add: respond_def read_callback_def fresh_context_def Let_def)

lemma respond_delete:
  "drop 6 (req_path req) = c # cs \<Longrightarrow>
   respond delete_callback req =
     Inr \<lparr>resp_status_code = (if c = CHR ''9'' then 503 else if c = CHR ''8'' then 404 else 200),
          resp_reason = (if c = CHR ''9'' then Some ''mock server error test''
            else if c = CHR ''8'' then Some ''mock client error test'' else None),
          resp_text = ''''\<rparr>"
  by (simp add: respond_def delete_callback_def fresh_context_def Let_def)

lemma respond_create_update:
  assumes "json_loads loads (req_text req) = Inr (JObject d)"
    and "(if length (req_path req) > 5 then drop 6 (req_path req) else ''77777777777777'') = c # cs"
  shows "respond (create_update_callback loads) req =
     Inr \<lparr>resp_status_code = (if c = CHR ''9'' then 503 else if c = CHR ''8'' then 404 else 200),
          resp_reason = (if c = CHR ''9'' then Some ''mock server error test''
            else if c = CHR ''8'' then Some ''mock client error test'' else None),
          resp_text = dumps (JObject (filled (c # cs) d))\<rparr>"
  using assms
  by (simp add: respond_def create_update_callback_def fresh_context_def Let_def filled_def
      del: dumps.simps)

section \<open>Encoded strings\<close>

lemma escape_char_plain:
  "(32::nat) \<le> of_char c \<Longrightarrow> of_char c \<le> (126::nat) \<Longrightarrow> c \<noteq> quote \<Longrightarrow> c \<noteq> backslash \<Longrightarrow>
   escape_char c = [c]"
  by (auto simp: escape_char_def)

lemma encode_string_plain:
  "list_all (\<lambda>c. (32::nat) \<le> of_char c \<and> of_char c \<le> (126::nat) \<and> c \<noteq> quote \<and> c \<noteq> backslash) s \<Longrightarrow>
   encode_string s = quote # s @ [quote]"
  by (induction s) (simp_all add: encode_string_def escape_char_plain)

lemma encode_keys:
  "encode_string ''guid'' = quote # ''guid'' @ [quote]"
  "encode_string ''expire'' = quote # ''expire'' @ [quote]"
  "encode_string ''user'' = quote # ''user'' @ [quote]"
  by (rule encode_string_plain, simp add: quote_def backslash_def)+

lemma encode_examples:
  "encode_string ''foo'' = quote # ''foo'' @ [quote]"
  "encode_string ''1234123123123'' = quote # ''1234123123123'' @ [quote]"
  "encode_string ''mock generated'' = quote # ''mock generated'' @ [quote]"
  "encode_string ''999999999999'' = quote # ''999999999999'' @ [quote]"
  "encode_string ''77777777777777'' = quote # ''77777777777777'' @ [quote]"
  "encode_string ''2000000000'' = quote # ''2000000000'' @ [quote]"
  "encode_string ''alice'' = quote # ''alice'' @ [quote]"
  "encode_string ''abc'' = quote # ''abc'' @ [quote]"
  "encode_string ''7AAAAAAAAAAAAAAAAAAAAAAAAAAAAAAA'' =
     quote # ''7AAAAAAAAAAAAAAAAAAAAAAAAAAAAAAA'' @ [quote]"
  by (rule encode_string_plain, simp add: quote_def backslash_def)+

section \<open>Status by first character\<close>

text \<open>
  C1. An intercepted request (its URL matches the registered pattern) whose GUID has a
  first character gets the status 503 when that character is \<open>9\<close>, 404 when it is \<open>8\<close>,
  and 200 otherwise: for READ and DELETE the GUID is the path from position 6 on; for
  CREATE/UPDATE, on a body that is a JSON object, it is that part of the path when the
  path is longer than 5 characters, and the placeholder otherwise.
\<close>

theorem status_by_first_character:
  assumes "re_search mock_re (req_url req)"
  shows
    "(req_method req = GET \<and> drop 6 (req_path req) = c # cs \<longrightarrow>
        (\<exists>r. adapter_send (mock_server loads) req = Response r \<and>
           resp_status_code r = (if c = CHR ''9'' then 503 else if c = CHR ''8'' then 404 else 200))) \<and>
     (req_method req = DELETE \<and> drop 6 (req_path req) = c # cs \<longrightarrow>
        (\<exists>r. adapter_send (mock_server loads) req = Response r \<and>
           resp_status_code r = (if c = CHR ''9'' then 503 else if c = CHR ''8'' then 404 else 200))) \<and>
     (req_method req = POST \<and> json_loads loads (req_text req) = Inr (JObject d) \<and>
      (if length (req_path req) > 5 then drop 6 (req_path req) else ''77777777777777'') = c # cs \<longrightarrow>
        (\<exists>r. adapter_send (mock_server loads) req = Response r \<and>
           resp_status_code r = (if c = CHR ''9'' then 503 else if c = CHR ''8'' then 404 else 200)))"
proof (intro conjI impI)
  assume "req_method req = GET \<and> drop 6 (req_path req) = c # cs"
  then show "\<exists>r. adapter_send (mock_server loads) req = Response r \<and>
      resp_status_code r = (if c = CHR ''9'' then 503 else if c = CHR ''8'' then 404 else 200)"
    by (simp add: adapter_send_mock_server [OF assms] respond_read)
next
  assume "req_method req = DELETE \<and> drop 6 (req_path req) = c # cs"
  then show "\<exists>r. adapter_send (mock_server loads) req = Response r \<and>
      resp_status_code r = (if c = CHR ''9'' then 503 else if c = CHR ''8'' then 404 else 200)"
    by (simp add: adapter_send_mock_server [OF assms] respond_delete)
next
  assume a: "req_method req = POST \<and> json_loads loads (req_text req) = Inr (JObject d) \<and>
      (if length (req_path req) > 5 then drop 6 (req_path req) else ''77777777777777'') = c # cs"
  then have "respond (create_update_callback loads) req =
     Inr \<lparr>resp_status_code = (if c = CHR ''9'' then 503 else if c = CHR ''8'' then 404 else 200),
          resp_reason = (if c = CHR ''9'' then Some ''mock server error test''
            else if c = CHR ''8'' then Some ''mock client error test'' else None),
          resp_text = dumps (JObject (filled (c # cs) d))\<rparr>"
    by (intro respond_create_update) simp_all
  with a show "\<exists>r. adapter_send (mock_server loads) req = Response r \<and>
      resp_status_code r = (if c = CHR ''9'' then 503 else if c = CHR ''8'' then 404 else 200)"
    by (simp add: adapter_send_mock_server [OF assms])
qed

theorem status_by_first_character_witness:
  "(\<exists>r. adapter_send (mock_server (loads_table []))
      \<lparr>req_method = GET, req_url = ''mock://test.net/guid/9AAAAAAAAAAAAAAAAAAAAAAAAAAAAAAA'',
       req_headers = [], req_path = ''/guid/9AAAAAAAAAAAAAAAAAAAAAAAAAAAAAAA'',
       req_text = None\<rparr> = Response r \<and> resp_status_code r = 503) \<and>
   (\<exists>r. adapter_send (mock_server (loads_table []))
      \<lparr>req_method = DELETE, req_url = ''mock://test.net/guid/8AAAAAAAAAAAAAAAAAAAAAAAAAAAAAAA'',
       req_headers = [], req_path = ''/guid/8AAAAAAAAAAAAAAAAAAAAAAAAAAAAAAA'',
       req_text = None\<rparr> = Response r \<and> resp_status_code r = 404) \<and>
   (\<exists>r. adapter_send (mock_server (loads_table [(''{}'', JObject [])]))
      \<lparr>req_method = POST, req_url = ''mock://test.net/guid/1AAAAAAAAAAAAAAAAAAAAAAAAAAAAAAA'',
       req_headers = [], req_path = ''/guid/1AAAAAAAAAAAAAAAAAAAAAAAAAAAAAAA'',
       req_text = Some ''{}''\<rparr> = Response r \<and> resp_status_code r = 200)"
  using status_by_first_character [of
      "\<lparr>req_method = GET, req_url = ''mock://test.net/guid/9AAAAAAAAAAAAAAAAAAAAAAAAAAAAAAA'',
       req_headers = [], req_path = ''/guid/9AAAAAAAAAAAAAAAAAAAAAAAAAAAAAAA'',
       req_text = None\<rparr>" "CHR ''9''" "''AAAAAAAAAAAAAAAAAAAAAAAAAAAAAAA''"
      "loads_table []"]
    status_by_first_character [of
      "\<lparr>req_method = DELETE, req_url = ''mock://test.net/guid/8AAAAAAAAAAAAAAAAAAAAAAAAAAAAAAA'',
       req_headers = [], req_path = ''/guid/8AAAAAAAAAAAAAAAAAAAAAAAAAAAAAAA'',
       req_text = None\<rparr>" "CHR ''8''" "''AAAAAAAAAAAAAAAAAAAAAAAAAAAAAAA''"
      "loads_table []"]
    status_by_first_character [of
      "\<lparr>req_method = POST, req_url = ''mock://test.net/guid/1AAAAAAAAAAAAAAAAAAAAAAAAAAAAAAA'',
       req_headers = [], req_path = ''/guid/1AAAAAAAAAAAAAAAAAAAAAAAAAAAAAAA'',
       req_text = Some ''{}''\<rparr>"
      "CHR ''1''" "''AAAAAAAAAAAAAAAAAAAAAAAAAAAAAAA''"
      "loads_table [(''{}'', JObject [])]" "[]"]
  by (simp add: mock_re_def json_loads_def loads_table_def)

section \<open>DELETE\<close>

text \<open>
  C6. Whatever \<open>delete_callback\<close> returns, the text is the empty string; and an
  intercepted DELETE request on \<^verbatim>\<open>/guid/<id>\<close> with a non-empty \<open>id\<close> does get a response,
  with the empty body and one of the statuses 200, 404 and 503.
\<close>

theorem delete_body_empty:
  "(\<forall>context context' t. delete_callback req context = Inr (context', t) \<longrightarrow> t = '''') \<and>
   (req_method req = DELETE \<and> re_search mock_re (req_url req) \<and>
    req_path req = ''/guid/'' @ g \<and> g \<noteq> '''' \<longrightarrow>
      (\<exists>r. adapter_send (mock_server loads) req = Response r \<and> resp_text r = '''' \<and>
         resp_status_code r \<in> {200, 404, 503}))"
proof (intro conjI allI impI)
  fix ctx ctx' :: mock_context and t
  assume "delete_callback req ctx = Inr (ctx', t)"
  then show "t = ''''"
    by (auto simp: delete_callback_def Let_def split: list.splits)
next
  assume a: "req_method req = DELETE \<and> re_search mock_re (req_url req) \<and>
    req_path req = ''/guid/'' @ g \<and> g \<noteq> ''''"
  then obtain c cs where g: "g = c # cs" by (cases g) auto
  with a have "drop 6 (req_path req) = c # cs" by simp
  then show "\<exists>r. adapter_send (mock_server loads) req = Response r \<and> resp_text r = '''' \<and>
         resp_status_code r \<in> {200, 404, 503}"
    using a by (simp add: adapter_send_mock_server respond_delete)
qed

theorem delete_body_empty_witness:
  "\<exists>r. adapter_send (mock_server (loads_table []))
      \<lparr>req_method = DELETE, req_url = ''mock://test.net/guid/8AAAAAAAAAAAAAAAAAAAAAAAAAAAAAAA'',
       req_headers = [], req_path = ''/guid/8AAAAAAAAAAAAAAAAAAAAAAAAAAAAAAA'',
       req_text = None\<rparr> = Response r \<and> resp_text r = '''' \<and>
       resp_status_code r \<in> {200, 404, 503}"
  using delete_body_empty [of
      "\<lparr>req_method = DELETE, req_url = ''mock://test.net/guid/8AAAAAAAAAAAAAAAAAAAAAAAAAAAAAAA'',
       req_headers = [], req_path = ''/guid/8AAAAAAAAAAAAAAAAAAAAAAAAAAAAAAA'',
       req_text = None\<rparr>" "''8AAAAAAAAAAAAAAAAAAAAAAAAAAAAAAA''" "loads_table []"]
  by (simp add: mock_re_def)

section \<open>CREATE/UPDATE\<close>

lemma dict_get_setitem:
  "dict_get (dict_setitem k v d) k' = (if k' = k then Some v else dict_get d k')"
  by (induction d) auto

lemma dict_contains_get: "dict_contains k d = (dict_get d k \<noteq> None)"
  by (induction d) (auto simp: dict_contains_def)

lemma dict_get_filled:
  "dict_get (filled g d) k =
     (if k = ''guid'' then Some (JString g)
      else if k = ''user'' \<and> dict_get d ''user'' = None then Some (JString ''mock generated'')
      else if k = ''expire'' \<and> dict_get d ''expire'' = None then Some (JString ''999999999999'')
      else dict_get d k)"
  by (auto simp: filled_def Let_def dict_get_setitem dict_contains_get)

text \<open>
  C10. An intercepted CREATE request on the bare path \<open>/guid\<close> with a JSON object as
  body gets a response with status 200, whatever the object holds; its \<open>guid\<close> field is
  the placeholder \<open>77777777777777\<close>, which has 14 characters.
\<close>

theorem create_placeholder_guid:
  "req_method req = POST \<and> re_search mock_re (req_url req) \<and> req_path req = ''/guid'' \<and>
   json_loads loads (req_text req) = Inr (JObject d) \<longrightarrow>
     (\<exists>r g. adapter_send (mock_server loads) req = Response r \<and>
        resp_status_code r = 200 \<and> resp_reason r = None \<and>
        resp_text r = dumps (JObject (filled g d)) \<and>
        dict_get (filled g d) ''guid'' = Some (JString g) \<and>
        g = ''77777777777777'' \<and> length g = 14)"
proof
  assume a: "req_method req = POST \<and> re_search mock_re (req_url req) \<and>
    req_path req = ''/guid'' \<and> json_loads loads (req_text req) = Inr (JObject d)"
  then have "respond (create_update_callback loads) req =
     Inr \<lparr>resp_status_code = (if CHR ''7'' = CHR ''9'' then 503
            else if CHR ''7'' = CHR ''8'' then 404 else 200),
          resp_reason = (if CHR ''7'' = CHR ''9'' then Some ''mock server error test''
            else if CHR ''7'' = CHR ''8'' then Some ''mock client error test'' else None),
          resp_text = dumps (JObject (filled (CHR ''7'' # ''7777777777777'') d))\<rparr>"
    by (intro respond_create_update) simp_all
  with a show "\<exists>r g. adapter_send (mock_server loads) req = Response r \<and>
        resp_status_code r = 200 \<and> resp_reason r = None \<and>
        resp_text r = dumps (JObject (filled g d)) \<and>
        dict_get (filled g d) ''guid'' = Some (JString g) \<and>
        g = ''77777777777777'' \<and> length g = 14"
    by (simp add: adapter_send_mock_server dict_get_filled del: dumps.simps)
qed

theorem create_placeholder_guid_witness:
  \<open>\<exists>r. adapter_send
       (mock_server (loads_table [(''{"user": "alice"}'', JObject [(''user'', JString ''alice'')])]))
       \<lparr>req_method = POST, req_url = ''mock://test.net/guid'', req_headers = [],
        req_path = ''/guid'', req_text = Some ''{"user": "alice"}''\<rparr> = Response r \<and>
     resp_status_code r = 200 \<and>
     resp_text r =
       ''{"user": "alice", "expire": "999999999999", "guid": "77777777777777"}''\<close>
  using create_placeholder_guid [of
      \<open>\<lparr>req_method = POST, req_url = ''mock://test.net/guid'', req_headers = [],
        req_path = ''/guid'', req_text = Some ''{"user": "alice"}''\<rparr>\<close>
      \<open>loads_table [(''{"user": "alice"}'', JObject [(''user'', JString ''alice'')])]\<close>
      "[(''user'', JString ''alice'')]"]
  by (auto simp add: mock_re_def json_loads_def loads_table_def filled_def dict_contains_def
      encode_examples encode_keys quote_def)

section \<open>Requests of the client through the mock server\<close>

lemma mock_send_mock_server:
  assumes "re_search mock_re (out_url p)"
  shows "mock_send (mock_server loads) hs p =
    (case respond (case out_method p of GET \<Rightarrow> read_callback
            | POST \<Rightarrow> create_update_callback loads | DELETE \<Rightarrow> delete_callback)
          (request_proxy hs p) of
       Inl e \<Rightarrow> Raised e | Inr r \<Rightarrow> Response r)"
proof -
  have "re_search mock_re (req_url (request_proxy hs p))"
    using assms by (simp add: request_proxy_def)
  then show ?thesis
    unfolding mock_send_def by (simp add: adapter_send_mock_server request_proxy_def)
qed

lemma path_read_example:
  "urlparse_path (lower ''mock://test.net/guid/9AAAAAAAAAAAAAAAAAAAAAAAAAAAAAAA'') =
     ''/guid/9aaaaaaaaaaaaaaaaaaaaaaaaaaaaaaa''"
  by code_simp

lemma path_update_example:
  "urlparse_path (lower ''mock://test.net/guid/7AAAAAAAAAAAAAAAAAAAAAAAAAAAAAAA'') =
     ''/guid/7aaaaaaaaaaaaaaaaaaaaaaaaaaaaaaa''"
  by code_simp

lemma encode_lower_examples:
  "encode_string ''9aaaaaaaaaaaaaaaaaaaaaaaaaaaaaaa'' =
     quote # ''9aaaaaaaaaaaaaaaaaaaaaaaaaaaaaaa'' @ [quote]"
  "encode_string ''7aaaaaaaaaaaaaaaaaaaaaaaaaaaaaaa'' =
     quote # ''7aaaaaaaaaaaaaaaaaaaaaaaaaaaaaaa'' @ [quote]"
  by (rule encode_string_plain, simp add: quote_def backslash_def)+

text \<open>
  C4 at the request the client builds for \<open>read --guid 9AAAAAAAAAAAAAAAAAAAAAAAAAAAAAAA
  --url mock://test.net\<close>: the callback receives the path of the lower-cased URL, and
  the body carries the GUID in lower case, not the \<open>id\<close> of the request.
\<close>

theorem read_echoes_lower_cased_guid:
  \<open>read_request \<lparr>args_url = ''mock://test.net'',
      args_guid = Some ''9AAAAAAAAAAAAAAAAAAAAAAAAAAAAAAA'', args_user = None,
      args_expire = None, args_func = read_request_func\<rparr> =
     \<lparr>out_method = GET, out_url = ''mock://test.net/guid/9AAAAAAAAAAAAAAAAAAAAAAAAAAAAAAA'',
      out_data = None\<rparr> \<and>
   mock_send (mock_server (loads_table [])) []
     \<lparr>out_method = GET, out_url = ''mock://test.net/guid/9AAAAAAAAAAAAAAAAAAAAAAAAAAAAAAA'',
      out_data = None\<rparr> =
   Response \<lparr>resp_status_code = 503, resp_reason = Some ''mock server error test'',
     resp_text = ''{"guid": "9aaaaaaaaaaaaaaaaaaaaaaaaaaaaaaa", "expire": "1234123123123", '' @
       ''"user": "foo"}''\<rparr>\<close>
  by (simp add: read_request_def format_s_def mock_send_mock_server mock_re_def
      request_proxy_def path_read_example respond_def read_callback_def fresh_context_def
      encode_keys encode_examples encode_lower_examples quote_def)

text \<open>
  C3 at the request the client builds for \<open>update --guid 7AAAAAAAAAAAAAAAAAAAAAAAAAAAAAAA
  --expire 2000000000 --url mock://test.net\<close>: \<open>expire\<close> is echoed and \<open>user\<close> is
  filled in, but the \<open>guid\<close> field is the segment of the lower-cased path, not the
  segment of the request.
\<close>

theorem update_echoes_lower_cased_guid:
  \<open>update_request \<lparr>args_url = ''mock://test.net'',
      args_guid = Some ''7AAAAAAAAAAAAAAAAAAAAAAAAAAAAAAA'', args_user = None,
      args_expire = Some ''2000000000'', args_func = update_request_func\<rparr> =
     \<lparr>out_method = POST, out_url = ''mock://test.net/guid/7AAAAAAAAAAAAAAAAAAAAAAAAAAAAAAA'',
      out_data = Some ''{"expire": "2000000000"}''\<rparr> \<and>
   mock_send
     (mock_server (loads_table [(''{"expire": "2000000000"}'',
        JObject [(''expire'', JString ''2000000000'')])])) []
     \<lparr>out_method = POST, out_url = ''mock://test.net/guid/7AAAAAAAAAAAAAAAAAAAAAAAAAAAAAAA'',
      out_data = Some ''{"expire": "2000000000"}''\<rparr> =
   Response \<lparr>resp_status_code = 200, resp_reason = None,
     resp_text = ''{"expire": "2000000000", "user": "mock generated", '' @
       ''"guid": "7aaaaaaaaaaaaaaaaaaaaaaaaaaaaaaa"}''\<rparr>\<close>
  by (simp add: update_request_def format_s_def json_of_def mock_send_mock_server mock_re_def
      request_proxy_def path_update_example respond_def create_update_callback_def
      json_loads_def loads_table_def fresh_context_def dict_contains_def
      encode_keys encode_examples encode_lower_examples quote_def)

text \<open>
  C5. An intercepted READ request whose path holds a GUID gets the object with the keys
  \<open>guid\<close>, \<open>expire\<close> and \<open>user\<close>, the last two with their fixed values. An intercepted
  CREATE or UPDATE request with a JSON object as body and a resolved GUID that is not
  empty gets an object that holds the three keys; where the request's object has no
  \<open>user\<close> key the value is the placeholder \<open>mock generated\<close>, where it has no \<open>expire\<close>
  key the value is the placeholder \<open>999999999999\<close>, and a \<open>user\<close> or \<open>expire\<close> that the
  request does carry, a \<open>null\<close> included, is echoed.
\<close>

theorem responses_hold_guid_user_expire:
  assumes "re_search mock_re (out_url p)"
  shows
    "(out_method p = GET \<and> drop 6 (req_path (request_proxy hs p)) = c # cs \<longrightarrow>
        (\<exists>r. mock_send (mock_server loads) hs p = Response r \<and>
           resp_text r = dumps (JObject [(''guid'', JString (c # cs)),
             (''expire'', JString ''1234123123123''), (''user'', JString ''foo'')]))) \<and>
     (out_method p = POST \<and> json_loads loads (out_data p) = Inr (JObject d) \<and>
      (if length (req_path (request_proxy hs p)) > 5 then drop 6 (req_path (request_proxy hs p))
       else ''77777777777777'') = c # cs \<longrightarrow>
        (\<exists>r. mock_send (mock_server loads) hs p = Response r \<and>
           resp_text r = dumps (JObject (filled (c # cs) d)) \<and>
           dict_contains ''guid'' (filled (c # cs) d) \<and>
           dict_contains ''user'' (filled (c # cs) d) \<and>
           dict_contains ''expire'' (filled (c # cs) d) \<and>
           (\<not> dict_contains ''user'' d \<longrightarrow>
              dict_get (filled (c # cs) d) ''user'' = Some (JString ''mock generated'')) \<and>
           (\<not> dict_contains ''expire'' d \<longrightarrow>
              dict_get (filled (c # cs) d) ''expire'' = Some (JString ''999999999999'')) \<and>
           (dict_contains ''user'' d \<longrightarrow>
              dict_get (filled (c # cs) d) ''user'' = dict_get d ''user'') \<and>
           (dict_contains ''expire'' d \<longrightarrow>
              dict_get (filled (c # cs) d) ''expire'' = dict_get d ''expire'')))"
proof (intro conjI impI)
  assume a: "out_method p = GET \<and> drop 6 (req_path (request_proxy hs p)) = c # cs"
  then have "respond read_callback (request_proxy hs p) =
     Inr \<lparr>resp_status_code = (if c = CHR ''9'' then 503 else if c = CHR ''8'' then 404 else 200),
          resp_reason = (if c = CHR ''9'' then Some ''mock server error test''
            else if c = CHR ''8'' then Some ''mock client error test'' else None),
          resp_text = dumps (JObject [(''guid'', JString (c # cs)),
            (''expire'', JString ''1234123123123''), (''user'', JString ''foo'')])\<rparr>"
    by (intro respond_read) simp
  with a show "\<exists>r. mock_send (mock_server loads) hs p = Response r \<and>
      resp_text r = dumps (JObject [(''guid'', JString (c # cs)),
        (''expire'', JString ''1234123123123''), (''user'', JString ''foo'')])"
    by (simp add: mock_send_mock_server [OF assms] del: dumps.simps)
next
  assume a: "out_method p = POST \<and> json_loads loads (out_data p) = Inr (JObject d) \<and>
      (if length (req_path (request_proxy hs p)) > 5 then drop 6 (req_path (request_proxy hs p))
       else ''77777777777777'') = c # cs"
  have t: "req_text (request_proxy hs p) = out_data p" by (simp add: request_proxy_def)
  from a have "respond (create_update_callback loads) (request_proxy hs p) =
     Inr \<lparr>resp_status_code = (if c = CHR ''9'' then 503 else if c = CHR ''8'' then 404 else 200),
          resp_reason = (if c = CHR ''9'' then Some ''mock server error test''
            else if c = CHR ''8'' then Some ''mock client error test'' else None),
          resp_text = dumps (JObject (filled (c # cs) d))\<rparr>"
    by (intro respond_create_update) (simp_all add: t)
  with a show "\<exists>r. mock_send (mock_server loads) hs p = Response r \<and>
           resp_text r = dumps (JObject (filled (c # cs) d)) \<and>
           dict_contains ''guid'' (filled (c # cs) d) \<and>
           dict_contains ''user'' (filled (c # cs) d) \<and>
           dict_contains ''expire'' (filled (c # cs) d) \<and>
           (\<not> dict_contains ''user'' d \<longrightarrow>
              dict_get (filled (c # cs) d) ''user'' = Some (JString ''mock generated'')) \<and>
           (\<not> dict_contains ''expire'' d \<longrightarrow>
              dict_get (filled (c # cs) d) ''expire'' = Some (JString ''999999999999'')) \<and>
           (dict_contains ''user'' d \<longrightarrow>
              dict_get (filled (c # cs) d) ''user'' = dict_get d ''user'') \<and>
           (dict_contains ''expire'' d \<longrightarrow>
              dict_get (filled (c # cs) d) ''expire'' = dict_get d ''expire'')"
    by (auto simp add: mock_send_mock_server [OF assms] dict_get_filled dict_contains_get
        simp del: dumps.simps)
qed

theorem responses_hold_guid_user_expire_witness:
  \<open>(\<exists>r. mock_send (mock_server (loads_table [])) []
      \<lparr>out_method = GET, out_url = ''mock://test.net/guid/9AAAAAAAAAAAAAAAAAAAAAAAAAAAAAAA'',
       out_data = None\<rparr> = Response r \<and>
      resp_text r = ''{"guid": "9aaaaaaaaaaaaaaaaaaaaaaaaaaaaaaa", '' @
        ''"expire": "1234123123123", "user": "foo"}'') \<and>
   (\<exists>r. mock_send
      (mock_server (loads_table [(''{"user": "alice", "expire": null}'',
         JObject [(''user'', JString ''alice''), (''expire'', JNull)])])) []
      (create_request \<lparr>args_url = ''mock://test.net'',
         args_guid = Some ''7AAAAAAAAAAAAAAAAAAAAAAAAAAAAAAA'', args_user = Some ''alice'',
         args_expire = None, args_func = create_request_func\<rparr>) = Response r \<and>
      resp_text r = ''{"user": "alice", "expire": null, '' @
        ''"guid": "7aaaaaaaaaaaaaaaaaaaaaaaaaaaaaaa"}'')\<close>
proof -
  have c: \<open>create_request \<lparr>args_url = ''mock://test.net'',
         args_guid = Some ''7AAAAAAAAAAAAAAAAAAAAAAAAAAAAAAA'', args_user = Some ''alice'',
         args_expire = None, args_func = create_request_func\<rparr> =
      \<lparr>out_method = POST, out_url = ''mock://test.net/guid/7AAAAAAAAAAAAAAAAAAAAAAAAAAAAAAA'',
       out_data = Some ''{"user": "alice", "expire": null}''\<rparr>\<close>
    by (simp add: create_request_def json_of_def format_s_def encode_keys encode_examples
        quote_def)
  show ?thesis
    unfolding c
    using responses_hold_guid_user_expire [of
        \<open>\<lparr>out_method = GET,
          out_url = ''mock://test.net/guid/9AAAAAAAAAAAAAAAAAAAAAAAAAAAAAAA'',
          out_data = None\<rparr>\<close> \<open>[]\<close> \<open>CHR ''9''\<close> \<open>''aaaaaaaaaaaaaaaaaaaaaaaaaaaaaaa''\<close>
        \<open>loads_table []\<close>]
      responses_hold_guid_user_expire [of
        \<open>\<lparr>out_method = POST,
          out_url = ''mock://test.net/guid/7AAAAAAAAAAAAAAAAAAAAAAAAAAAAAAA'',
          out_data = Some ''{"user": "alice", "expire": null}''\<rparr>\<close> \<open>[]\<close>
        \<open>CHR ''7''\<close> \<open>''aaaaaaaaaaaaaaaaaaaaaaaaaaaaaaa''\<close>
        \<open>loads_table [(''{"user": "alice", "expire": null}'',
           JObject [(''user'', JString ''alice''), (''expire'', JNull)])]\<close>
        \<open>[(''user'', JString ''alice''), (''expire'', JNull)]\<close>]
    by (auto simp add: mock_re_def request_proxy_def path_read_example path_update_example
        json_loads_def loads_table_def filled_def dict_contains_def
        encode_keys encode_examples encode_lower_examples quote_def)
qed

section \<open>Installing the mock server\<close>

lemma startswith_iff: "startswith s p = (\<exists>rest. s = p @ rest)"
  unfolding startswith_def
  by (metis append_eq_conv_conj append_take_drop_id)

lemma convert_url:
  "convert d (url env) given = Inr (Some l) \<Longrightarrow> given = Some l"
  by (auto simp: convert_def url_def split: option.splits if_splits sum.splits)

lemma parse_args_url:
  "parse_args env av = Inr (Some parsed) \<Longrightarrow> argv_url av = Some (args_url parsed)"
  by (auto simp: parse_args_def split: option.splits if_splits sum.splits dest: convert_url)

lemma mock_server_routes:
  "mock_server loads =
     [(GET, ''mock://test.net/guid'', read_callback),
      (POST, ''mock://test.net/guid'', create_update_callback loads),
      (DELETE, ''mock://test.net/guid'', delete_callback)]"
  by (simp add: mock_server_def register_uri_def mock_re_def)

text \<open>
  C9. When the command line parses, the endpoint URL of the run is the value given as
  \<open>--url\<close>, and at the end of \<open>main\<close> the session holds the adapter that \<open>mock_server\<close>
  builds exactly when that URL starts with \<open>mock://\<close>, and no adapter otherwise. That
  adapter binds three routes on the pattern \<open>mock://test.net/guid\<close>: GET to
  \<open>read_callback\<close>, POST to \<open>create_update_callback\<close> and DELETE to \<open>delete_callback\<close>.
  The log then holds one installation followed by the one dispatched request, and
  otherwise the dispatched request alone. When the command line does not parse, the
  session is untouched.
\<close>

theorem mock_installed_iff_mock_url:
  "(parse_args env av = Inr (Some parsed) \<longrightarrow>
      argv_url av = Some (args_url parsed) \<and>
      (session_mock (fst (main env loads av)) \<noteq> None) =
        (\<exists>rest. args_url parsed = ''mock://'' @ rest) \<and>
      session_mock (fst (main env loads av)) =
        (if \<exists>rest. args_url parsed = ''mock://'' @ rest
         then Some [(GET, ''mock://test.net/guid'', read_callback),
                    (POST, ''mock://test.net/guid'', create_update_callback loads),
                    (DELETE, ''mock://test.net/guid'', delete_callback)]
         else None) \<and>
      session_log (fst (main env loads av)) =
        (if \<exists>rest. args_url parsed = ''mock://'' @ rest then [MockInstalled] else []) @
        [Dispatched (call_func (args_func parsed) parsed)] \<and>
      count_list (session_log (fst (main env loads av))) MockInstalled \<le> 1) \<and>
   ((\<forall>p. parse_args env av \<noteq> Inr (Some p)) \<longrightarrow> fst (main env loads av) = new_session)"
proof (intro conjI impI)
  assume p: "parse_args env av = Inr (Some parsed)"
  then show "argv_url av = Some (args_url parsed)" by (rule parse_args_url)
  have m: "(\<exists>rest. args_url parsed = ''mock://'' @ rest) = startswith (args_url parsed) ''mock://''"
    by (simp only: startswith_iff)
  show "(session_mock (fst (main env loads av)) \<noteq> None) =
      (\<exists>rest. args_url parsed = ''mock://'' @ rest)"
    unfolding m using p
    by (simp add: main_def Let_def mount_def dispatch_def new_session_def)
  show "session_mock (fst (main env loads av)) =
      (if \<exists>rest. args_url parsed = ''mock://'' @ rest
       then Some [(GET, ''mock://test.net/guid'', read_callback),
                  (POST, ''mock://test.net/guid'', create_update_callback loads),
                  (DELETE, ''mock://test.net/guid'', delete_callback)]
       else None)"
    unfolding m mock_server_routes [symmetric] using p
    by (simp add: main_def Let_def mount_def dispatch_def new_session_def)
  show l: "session_log (fst (main env loads av)) =
      (if \<exists>rest. args_url parsed = ''mock://'' @ rest then [MockInstalled] else []) @
      [Dispatched (call_func (args_func parsed) parsed)]"
    unfolding m using p
    by (simp add: main_def Let_def mount_def dispatch_def new_session_def)
  show "count_list (session_log (fst (main env loads av))) MockInstalled \<le> 1"
    unfolding l by simp
next
  assume "\<forall>p. parse_args env av \<noteq> Inr (Some p)"
  then show "fst (main env loads av) = new_session"
    by (auto simp: main_def split: sum.splits option.splits)
qed

theorem mock_installed_iff_mock_url_witness:
  "session_mock (fst (main
      \<lparr>urlparse_scheme = (\<lambda>u. ''mock''), int_of = (\<lambda>s. Some 0), time_after = (\<lambda>n. False)\<rparr>
      (loads_table [])
      \<lparr>argv_command = Some Read, argv_expire = None, argv_user = None,
       argv_guid = Some ''0123456789ABCDEF0123456789ABCDEF'',
       argv_url = Some ''mock://test.net''\<rparr>)) =
     Some [(GET, ''mock://test.net/guid'', read_callback),
           (POST, ''mock://test.net/guid'', create_update_callback (loads_table [])),
           (DELETE, ''mock://test.net/guid'', delete_callback)] \<and>
   session_log (fst (main
      \<lparr>urlparse_scheme = (\<lambda>u. ''mock''), int_of = (\<lambda>s. Some 0), time_after = (\<lambda>n. False)\<rparr>
      (loads_table [])
      \<lparr>argv_command = Some Read, argv_expire = None, argv_user = None,
       argv_guid = Some ''0123456789ABCDEF0123456789ABCDEF'',
       argv_url = Some ''mock://test.net''\<rparr>)) =
     [MockInstalled, Dispatched \<lparr>out_method = GET,
        out_url = ''mock://test.net/guid/0123456789ABCDEF0123456789ABCDEF'', out_data = None\<rparr>] \<and>
   fst (main
      \<lparr>urlparse_scheme = (\<lambda>u. ''''), int_of = (\<lambda>s. Some 0), time_after = (\<lambda>n. False)\<rparr>
      (loads_table [])
      \<lparr>argv_command = Some Read, argv_expire = None, argv_user = None,
       argv_guid = Some ''0123456789ABCDEF0123456789ABCDEF'',
       argv_url = Some ''test.net''\<rparr>) = new_session"
proof -
  have g: "guid ''0123456789ABCDEF0123456789ABCDEF'' = Inr ''0123456789ABCDEF0123456789ABCDEF''"
    by (rule guid_accepts) simp
  have p: "parse_args
      \<lparr>urlparse_scheme = (\<lambda>u. ''mock''), int_of = (\<lambda>s. Some 0), time_after = (\<lambda>n. False)\<rparr>
      \<lparr>argv_command = Some Read, argv_expire = None, argv_user = None,
       argv_guid = Some ''0123456789ABCDEF0123456789ABCDEF'',
       argv_url = Some ''mock://test.net''\<rparr> =
     Inr (Some \<lparr>args_url = ''mock://test.net'',
       args_guid = Some ''0123456789ABCDEF0123456789ABCDEF'', args_user = None,
       args_expire = None, args_func = read_request_func\<rparr>)"
    by (simp add: parse_args_def convert_def expire_option_def user_option_def
        guid_option_def url_option_def url_def set_defaults_def g)
  have q: "\<forall>p. parse_args
      \<lparr>urlparse_scheme = (\<lambda>u. ''''), int_of = (\<lambda>s. Some 0), time_after = (\<lambda>n. False)\<rparr>
      \<lparr>argv_command = Some Read, argv_expire = None, argv_user = None,
       argv_guid = Some ''0123456789ABCDEF0123456789ABCDEF'',
       argv_url = Some ''test.net''\<rparr> \<noteq> Inr (Some p)"
    by (simp add: parse_args_def convert_def expire_option_def user_option_def
        guid_option_def url_option_def url_def set_defaults_def g)
  show ?thesis
    using mock_installed_iff_mock_url [of
      "\<lparr>urlparse_scheme = (\<lambda>u. ''mock''), int_of = (\<lambda>s. Some 0), time_after = (\<lambda>n. False)\<rparr>"
      "\<lparr>argv_command = Some Read, argv_expire = None, argv_user = None,
       argv_guid = Some ''0123456789ABCDEF0123456789ABCDEF'',
       argv_url = Some ''mock://test.net''\<rparr>"
      "\<lparr>args_url = ''mock://test.net'',
       args_guid = Some ''0123456789ABCDEF0123456789ABCDEF'', args_user = None,
       args_expire = None, args_func = read_request_func\<rparr>" "loads_table []"]
     mock_installed_iff_mock_url [of
      "\<lparr>urlparse_scheme = (\<lambda>u. ''''), int_of = (\<lambda>s. Some 0), time_after = (\<lambda>n. False)\<rparr>"
      "\<lparr>argv_command = Some Read, argv_expire = None, argv_user = None,
       argv_guid = Some ''0123456789ABCDEF0123456789ABCDEF'',
       argv_url = Some ''test.net''\<rparr>" _ "loads_table []"]
     p q
    by (simp add: call_func_def read_request_def format_s_def)
qed

section \<open>The bodies as JSON texts\<close>

lemma digit_char_is_digit: "n < 10 \<Longrightarrow> is_digit (digit_char n)"
proof -
  assume "n < 10"
  then have "n < length ''0123456789''" by simp
  then have "''0123456789'' ! n \<in> set ''0123456789''" by (rule nth_mem)
  then show ?thesis by (simp only: is_digit_def digit_char_def)
qed

lemma digit_char_zero: "n < 10 \<Longrightarrow> digit_char n = CHR ''0'' \<Longrightarrow> n = 0"
proof -
  assume n: "n < 10" and z: "digit_char n = CHR ''0''"
  have d: "distinct ''0123456789''" by simp
  have "''0123456789'' ! n = ''0123456789'' ! 0" using z by (simp add: digit_char_def)
  moreover have "n < length ''0123456789''" "0 < length ''0123456789''" using n by simp_all
  ultimately show "n = 0" using d by (simp only: nth_eq_iff_index_eq)
qed

lemma hex_digit_is_hex: "n < 16 \<Longrightarrow> is_hex (hex_digit n)"
proof -
  assume "n < 16"
  then have "n < length ''0123456789abcdef''" by simp
  then have "''0123456789abcdef'' ! n \<in> set ''0123456789abcdef''" by (rule nth_mem)
  moreover have "set ''0123456789abcdef'' \<subseteq> set ''0123456789abcdefABCDEF''" by auto
  ultimately show ?thesis unfolding is_hex_def hex_digit_def by (rule rev_subsetD)
qed

lemma str_nat_digits:
  "str_nat n \<noteq> [] \<and> list_all is_digit (str_nat n) \<and>
   (hd (str_nat n) = CHR ''0'' \<longrightarrow> n = 0)"
proof (induction n rule: str_nat.induct)
  case (1 n)
  show ?case
  proof (cases "n < 10")
    case True
    then show ?thesis
      by (simp add: str_nat.simps [of n] digit_char_is_digit digit_char_zero)
  next
    case False
    with 1 have ih: "str_nat (n div 10) \<noteq> []" "list_all is_digit (str_nat (n div 10))"
      "hd (str_nat (n div 10)) = CHR ''0'' \<longrightarrow> n div 10 = 0"
      by simp_all
    from False have "n div 10 \<noteq> 0" by simp
    with ih False show ?thesis
      by (simp add: str_nat.simps [of n] digit_char_is_digit)
  qed
qed

lemma str_nat_zero: "str_nat 0 = ''0''"
  by (simp add: str_nat.simps [of 0] digit_char_def)

lemma json_int_part_str_nat: "json_int_part (str_nat n)"
  using str_nat_digits [of n] str_nat_zero
  by (cases "n = 0") (auto simp: json_int_part_def json_digits_def)

lemma json_number_str_int: "json_number (str_int i)"
proof (cases "i < 0")
  case True
  have "json_number (CHR ''-'' # str_nat (nat (- i)) @ [] @ [])"
    by (rule json_number.negative) (simp_all add: json_int_part_str_nat json_frac_def json_exp_def)
  with True show ?thesis by (simp add: str_int_def)
next
  case False
  have "json_number (str_nat (nat i) @ [] @ [])"
    by (rule json_number.positive) (simp_all add: json_int_part_str_nat json_frac_def json_exp_def)
  with False show ?thesis by (simp add: str_int_def)
qed

lemma json_chars_escape_char:
  assumes "json_chars t"
  shows "json_chars (escape_char c @ t)"
proof -
  have esc: "json_chars (backslash # e # t)"
    if "e \<in> set [quote, backslash, CHR ''/'', CHR ''b'', CHR ''f'', CHR ''n'', CHR ''r'', CHR ''t'']" for e
    using that assms by (rule json_chars.escaped)
  have lt: "(of_char c :: nat) < 256"
    by (rule nat_of_char_less_256)
  then have "(of_char c :: nat) div 16 < 16" by (intro less_mult_imp_div_less) simp
  then have h1: "is_hex (hex_digit (of_char c div 16))" by (rule hex_digit_is_hex)
  have h2: "is_hex (hex_digit (of_char c mod 16))" by (rule hex_digit_is_hex) simp
  have h0: "is_hex (CHR ''0'')" by (simp add: is_hex_def)
  have uni: "json_chars (backslash # CHR ''u'' # CHR ''0'' # CHR ''0'' #
      hex_digit (of_char c div 16) # hex_digit (of_char c mod 16) # t)"
    using h0 h0 h1 h2 assms by (rule json_chars.unicode)
  have plain: "json_chars (c # t)"
    if "(32::nat) \<le> of_char c" "c \<noteq> quote" "c \<noteq> backslash"
    using that assms by (rule json_chars.unescaped)
  show ?thesis
    unfolding escape_char_def
    using esc uni plain by simp
qed

lemma json_chars_escaped_string: "json_chars (concat (map escape_char s))"
  by (induction s) (simp_all add: json_chars.no_chars json_chars_escape_char)

lemma json_value_encode_string: "json_value (encode_string s)"
  unfolding encode_string_def by (rule json_value_json_element_json_elements_json_member_json_members.chars)
    (rule json_chars_escaped_string)

lemmas json_elementI = json_value_json_element_json_elements_json_member_json_members.element
  and json_memberI = json_value_json_element_json_elements_json_member_json_members.member
  and json_one_elementI =
    json_value_json_element_json_elements_json_member_json_members.one_element
  and json_more_elementsI =
    json_value_json_element_json_elements_json_member_json_members.more_elements
  and json_one_memberI =
    json_value_json_element_json_elements_json_member_json_members.one_member
  and json_more_membersI =
    json_value_json_element_json_elements_json_member_json_members.more_members
  and json_empty_arrayI =
    json_value_json_element_json_elements_json_member_json_members.empty_array
  and json_empty_objectI =
    json_value_json_element_json_elements_json_member_json_members.empty_object
  and json_arrayI = json_value_json_element_json_elements_json_member_json_members.array
  and json_objectI = json_value_json_element_json_elements_json_member_json_members.object
  and json_numberI = json_value_json_element_json_elements_json_member_json_members.number
  and json_nullI = json_value_json_element_json_elements_json_member_json_members.null
  and json_trueI = json_value_json_element_json_elements_json_member_json_members.true
  and json_falseI = json_value_json_element_json_elements_json_member_json_members.false

lemma json_ws_space: "json_ws '' ''" and json_ws_empty: "json_ws ''''"
  by (simp_all add: json_ws_def ws_char_def)

lemma json_elements_join:
  assumes "\<forall>x\<in>set xs. json_value x" and "xs \<noteq> []" and "json_ws w"
  shows "json_elements (w @ join '', '' xs)"
  using assms
proof (induction xs arbitrary: w)
  case Nil
  then show ?case by simp
next
  case (Cons x xs)
  have e: "json_element (w @ x @ [])"
    using Cons.prems by (intro json_elementI) (simp_all add: json_ws_empty)
  show ?case
  proof (cases xs)
    case Nil
    with e show ?thesis by (simp add: json_one_elementI)
  next
    case (Cons y ys)
    with Cons.prems Cons.IH [of "'' ''"] have "json_elements ('' '' @ join '', '' xs)"
      by (simp add: json_ws_space)
    with e have "json_elements ((w @ x @ []) @ CHR '','' # '' '' @ join '', '' xs)"
      by (rule json_more_elementsI)
    with Cons show ?thesis by simp
  qed
qed

lemma json_member_item:
  assumes "json_value t" and "json_ws w"
  shows "json_member (w @ encode_string k @ '': '' @ t)"
proof -
  have "json_element ('' '' @ t @ [])"
    using assms by (intro json_elementI) (simp_all add: json_ws_space json_ws_empty)
  with assms have "json_member (w @ quote # concat (map escape_char k) @ quote # [] @
      CHR '':'' # '' '' @ t @ [])"
    by (intro json_memberI) (simp_all add: json_chars_escaped_string json_ws_empty)
  then show ?thesis by (simp add: encode_string_def)
qed

lemma json_members_join:
  assumes "\<forall>p\<in>set kvs. json_value (f (snd p))" and "kvs \<noteq> []" and "json_ws w"
  shows "json_members (w @ join '', '' (map (\<lambda>(k, v). encode_string k @ '': '' @ f v) kvs))"
  using assms
proof (induction kvs arbitrary: w)
  case Nil
  then show ?case by simp
next
  case (Cons p kvs)
  obtain k v where p: "p = (k, v)" by (cases p)
  have m: "json_member (w @ encode_string k @ '': '' @ f v)"
    using Cons.prems p by (intro json_member_item) simp_all
  show ?case
  proof (cases kvs)
    case Nil
    with m p show ?thesis by (simp add: json_one_memberI)
  next
    case (Cons q qs)
    with Cons.prems Cons.IH [of "'' ''"]
    have "json_members ('' '' @ join '', '' (map (\<lambda>(k, v). encode_string k @ '': '' @ f v) kvs))"
      by (simp add: json_ws_space)
    with m have "json_members ((w @ encode_string k @ '': '' @ f v) @ CHR '','' # '' '' @
        join '', '' (map (\<lambda>(k, v). encode_string k @ '': '' @ f v) kvs))"
      by (rule json_more_membersI)
    with Cons p show ?thesis by simp
  qed
qed

lemma json_value_dumps: "finite_floats v \<Longrightarrow> json_value (dumps v)"
proof (induction v)
  case JNull
  show ?case by (simp add: json_nullI)
next
  case (JBool b)
  show ?case by (simp add: json_trueI json_falseI)
next
  case (JInt i)
  show ?case by (simp add: json_numberI json_number_str_int)
next
  case (JFloat r)
  then show ?case by (simp add: json_numberI)
next
  case (JString s)
  show ?case by (simp add: json_value_encode_string)
next
  case (JArray xs)
  show ?case
  proof (cases xs)
    case Nil
    have "json_value (CHR ''['' # '''' @ '']'')"
      by (intro json_empty_arrayI) (rule json_ws_empty)
    with Nil show ?thesis by simp
  next
    case (Cons y ys)
    from JArray have "\<forall>t\<in>set (map dumps xs). json_value t"
      by (auto simp: list_all_iff)
    with Cons have "json_elements ('''' @ join '', '' (map dumps xs))"
      by (intro json_elements_join) (simp_all add: json_ws_empty)
    then have "json_value (CHR ''['' # ('''' @ join '', '' (map dumps xs)) @ '']'')"
      by (rule json_arrayI)
    then show ?thesis by simp
  qed
next
  case (JObject kvs)
  show ?case
  proof (cases kvs)
    case Nil
    have "json_value (CHR ''{'' # '''' @ ''}'')"
      by (intro json_empty_objectI) (rule json_ws_empty)
    with Nil show ?thesis by simp
  next
    case (Cons y ys)
    from JObject have "\<forall>p\<in>set kvs. json_value (dumps (snd p))"
      by (auto simp: list_all_iff)
    with Cons have "json_members ('''' @
        join '', '' (map (\<lambda>(k, v). encode_string k @ '': '' @ dumps v) kvs))"
      by (intro json_members_join) (simp_all add: json_ws_empty)
    then have "json_value (CHR ''{'' # ('''' @
        join '', '' (map (\<lambda>(k, v). encode_string k @ '': '' @ dumps v) kvs)) @ ''}'')"
      by (rule json_objectI)
    then show ?thesis by simp
  qed
qed

lemma valid_json_dumps: "finite_floats v \<Longrightarrow> valid_json (dumps v)"
proof -
  assume "finite_floats v"
  then have "json_value (dumps v)" by (rule json_value_dumps)
  then have "json_element ('''' @ dumps v @ '''')"
    by (intro json_elementI) (simp_all add: json_ws_empty)
  then show ?thesis by (simp add: valid_json_def)
qed

lemma not_json_number_empty: "\<not> json_number ''''"
  by (auto elim!: json_number.cases simp: json_int_part_def json_digits_def)

lemma not_json_value_empty: "\<not> json_value ''''"
  by (auto elim: json_value.cases simp: not_json_number_empty)

lemma not_valid_json_empty: "\<not> valid_json ''''"
  unfolding valid_json_def
  by (auto elim: json_element.cases simp: not_json_value_empty)

lemma finite_floats_setitem:
  "list_all (\<lambda>(k, v). finite_floats v) d \<Longrightarrow> finite_floats v \<Longrightarrow>
   list_all (\<lambda>(k, v). finite_floats v) (dict_setitem k v d)"
  by (induction d) auto

lemma finite_floats_filled:
  "finite_floats (JObject d) \<Longrightarrow> finite_floats (JObject (filled g d))"
  by (simp add: filled_def Let_def finite_floats_setitem)

text \<open>
  C2, as the code has it. Of the three synthesizers, READ and CREATE/UPDATE answer an
  intercepted request with a JSON text: READ whenever the path holds a GUID;
  CREATE/UPDATE whenever the resolved GUID is not empty and the body is a JSON object
  whose floats, if any, print as JSON numbers. DELETE answers with the empty string,
  which is not a JSON text.
\<close>

theorem read_and_create_update_bodies_are_json:
  assumes "re_search mock_re (req_url req)"
  shows
    "(req_method req = GET \<and> drop 6 (req_path req) \<noteq> '''' \<longrightarrow>
        (\<exists>r. adapter_send (mock_server loads) req = Response r \<and> valid_json (resp_text r))) \<and>
     (req_method req = POST \<and> json_loads loads (req_text req) = Inr (JObject d) \<and>
      finite_floats (JObject d) \<and>
      (if length (req_path req) > 5 then drop 6 (req_path req) else ''77777777777777'') \<noteq> '''' \<longrightarrow>
        (\<exists>r. adapter_send (mock_server loads) req = Response r \<and> valid_json (resp_text r))) \<and>
     (req_method req = DELETE \<and> drop 6 (req_path req) \<noteq> '''' \<longrightarrow>
        (\<exists>r. adapter_send (mock_server loads) req = Response r \<and> resp_text r = '''' \<and>
           \<not> valid_json (resp_text r)))"
proof (intro conjI impI)
  assume a: "req_method req = GET \<and> drop 6 (req_path req) \<noteq> ''''"
  then obtain c cs where g: "drop 6 (req_path req) = c # cs"
    by (cases "drop 6 (req_path req)") auto
  have "valid_json (dumps (JObject [(''guid'', JString (c # cs)),
      (''expire'', JString ''1234123123123''), (''user'', JString ''foo'')]))"
    by (rule valid_json_dumps) simp
  with a show "\<exists>r. adapter_send (mock_server loads) req = Response r \<and> valid_json (resp_text r)"
    by (simp add: adapter_send_mock_server [OF assms] respond_read [OF g] del: dumps.simps)
next
  assume a: "req_method req = POST \<and> json_loads loads (req_text req) = Inr (JObject d) \<and>
      finite_floats (JObject d) \<and>
      (if length (req_path req) > 5 then drop 6 (req_path req) else ''77777777777777'') \<noteq> ''''"
  then obtain c cs where
    g: "(if length (req_path req) > 5 then drop 6 (req_path req) else ''77777777777777'') = c # cs"
    by (cases "(if length (req_path req) > 5 then drop 6 (req_path req) else ''77777777777777'')")
      auto
  from a have l: "json_loads loads (req_text req) = Inr (JObject d)" by simp
  from a have "valid_json (dumps (JObject (filled (c # cs) d)))"
    by (intro valid_json_dumps finite_floats_filled) simp
  with a show "\<exists>r. adapter_send (mock_server loads) req = Response r \<and> valid_json (resp_text r)"
    by (simp add: adapter_send_mock_server [OF assms] respond_create_update [OF l g]
        del: dumps.simps)
next
  assume a: "req_method req = DELETE \<and> drop 6 (req_path req) \<noteq> ''''"
  then obtain c cs where g: "drop 6 (req_path req) = c # cs"
    by (cases "drop 6 (req_path req)") auto
  with a show "\<exists>r. adapter_send (mock_server loads) req = Response r \<and> resp_text r = '''' \<and>
      \<not> valid_json (resp_text r)"
    by (simp add: adapter_send_mock_server [OF assms] respond_delete [OF g] not_valid_json_empty)
qed

theorem read_and_create_update_bodies_are_json_witness:
  \<open>(\<exists>r. adapter_send (mock_server (loads_table []))
      \<lparr>req_method = GET, req_url = ''mock://test.net/guid/9AAAAAAAAAAAAAAAAAAAAAAAAAAAAAAA'',
       req_headers = [], req_path = ''/guid/9AAAAAAAAAAAAAAAAAAAAAAAAAAAAAAA'',
       req_text = None\<rparr> = Response r \<and> valid_json (resp_text r)) \<and>
   (\<exists>r. adapter_send
      (mock_server (loads_table [(''{"user": "alice"}'', JObject [(''user'', JString ''alice'')])]))
      \<lparr>req_method = POST, req_url = ''mock://test.net/guid'', req_headers = [],
       req_path = ''/guid'', req_text = Some ''{"user": "alice"}''\<rparr> = Response r \<and>
      valid_json (resp_text r)) \<and>
   (\<exists>r. adapter_send (mock_server (loads_table []))
      \<lparr>req_method = DELETE, req_url = ''mock://test.net/guid/7AAAAAAAAAAAAAAAAAAAAAAAAAAAAAAA'',
       req_headers = [], req_path = ''/guid/7AAAAAAAAAAAAAAAAAAAAAAAAAAAAAAA'',
       req_text = None\<rparr> = Response r \<and> resp_text r = '''' \<and> \<not> valid_json (resp_text r))\<close>
  using read_and_create_update_bodies_are_json [of
      \<open>\<lparr>req_method = GET, req_url = ''mock://test.net/guid/9AAAAAAAAAAAAAAAAAAAAAAAAAAAAAAA'',
       req_headers = [], req_path = ''/guid/9AAAAAAAAAAAAAAAAAAAAAAAAAAAAAAA'',
       req_text = None\<rparr>\<close> \<open>loads_table []\<close>]
    read_and_create_update_bodies_are_json [of
      \<open>\<lparr>req_method = POST, req_url = ''mock://test.net/guid'', req_headers = [],
       req_path = ''/guid'', req_text = Some ''{"user": "alice"}''\<rparr>\<close>
      \<open>loads_table [(''{"user": "alice"}'', JObject [(''user'', JString ''alice'')])]\<close>
      \<open>[(''user'', JString ''alice'')]\<close>]
    read_and_create_update_bodies_are_json [of
      \<open>\<lparr>req_method = DELETE, req_url = ''mock://test.net/guid/7AAAAAAAAAAAAAAAAAAAAAAAAAAAAAAA'',
       req_headers = [], req_path = ''/guid/7AAAAAAAAAAAAAAAAAAAAAAAAAAAAAAA'',
       req_text = None\<rparr>\<close> \<open>loads_table []\<close>]
  by (simp add: mock_re_def json_loads_def loads_table_def)

text \<open>
  C2, as stated, fails for DELETE: the body of the response to a DELETE request is the
  empty string, and the empty string is not a JSON text.
\<close>

theorem delete_body_is_not_json:
  "adapter_send (mock_server (loads_table []))
     \<lparr>req_method = DELETE, req_url = ''mock://test.net/guid/7AAAAAAAAAAAAAAAAAAAAAAAAAAAAAAA'',
      req_headers = [], req_path = ''/guid/7AAAAAAAAAAAAAAAAAAAAAAAAAAAAAAA'',
      req_text = None\<rparr> =
   Response \<lparr>resp_status_code = 200, resp_reason = None, resp_text = ''''\<rparr> \<and>
   \<not> valid_json ''''"
  by (simp add: adapter_send_mock_server mock_re_def respond_def delete_callback_def
      fresh_context_def not_valid_json_empty)

end
